theory Spec2Isabelle
  imports Main "HOL-Library.AList"
begin

section \<open>Data model\<close>

text \<open>
  The \<open>kind\<close> field of a description. \<open>create\<close> switches on it; \<open>OTHER k\<close> stands for
  every other value the field can hold when the object arrives, \<open>k\<close> being its rendering
  in a template string.
\<close>

datatype Kind = BENCHMARK | CANDIDATE | SUITE | OTHER string

text \<open>
  A description as the Laboratory and the Repository use it: a plain object. The code
  reads \<open>kind\<close>, \<open>name\<close>, \<open>owner\<close>, \<open>created\<close>, \<open>image\<close> (here \<open>image_tag\<close>) and
  \<open>benchmarkId\<close>; \<open>properties\<close> holds every further property of the object, a
  candidate's secret-bearing fields among them.
\<close>

record Description =
  kind :: Kind
  name :: string
  description :: string
  owner :: string
  created :: string
  image_tag :: string
  benchmarkId :: string
  properties :: "(string \<times> string) list"

text \<open>
  The content of a blob. \<open>Yaml d\<close> is the buffer \<open>Buffer.from(yaml.safeDump(d), 'utf8')\<close>,
  kept in parsed form (the serialisation library is not part of the repository); \<open>Text\<close> is any
  other content.
\<close>

datatype Buffer = Yaml Description | Text string

definition safeDump :: "Description \<Rightarrow> Buffer" where
  "safeDump d = Yaml d"

datatype error =
    TypeError string
  | BlobExists string
  | BlobNotFound string
  | NotADescription string
  | DecryptionError string
  | NoSuchTable string

record KeyPair =
  publicKey :: string
  privateKey :: string

section \<open>Blob storage\<close>

text \<open>
  The storage class \<open>RamDisk\<close> of \<open>../cloud\<close> is not among the sources. A disk is an
  association list from blob keys to contents, in insertion order.
\<close>

type_synonym RamDisk = "(string \<times> Buffer) list"

text \<open>
  Modelled from the spec: \<open>RamDisk.writeBlob\<close> is missing. The spec gives
  \<open>writeBlob(key, bytes, allowOverwrite)\<close> and asks that a write to a key that exists be
  rejected unless overwriting is allowed.
\<close>

definition writeBlob :: "string \<Rightarrow> Buffer \<Rightarrow> bool \<Rightarrow> RamDisk \<Rightarrow> error + RamDisk" where
  "writeBlob key buffer allowOverwrite disk =
     (if \<not> allowOverwrite \<and> map_of disk key \<noteq> None then Inl (BlobExists key)
      else Inr (AList.update key buffer disk))"

text \<open>
  Modelled from the spec: \<open>RamDisk.readBlob\<close> is missing. The spec gives \<open>readBlob(key)\<close>,
  which returns the bytes and fails if the blob is absent.
\<close>

definition readBlob :: "string \<Rightarrow> RamDisk \<Rightarrow> error + Buffer" where
  "readBlob key disk =
     (case map_of disk key of None \<Rightarrow> Inl (BlobNotFound key) | Some buffer \<Rightarrow> Inr buffer)"

text \<open>
  Modelled from the spec: \<open>RamDisk.listBlobs\<close> is missing. The spec gives \<open>listBlobs()\<close>,
  the sequence of the keys.
\<close>

definition listBlobs :: "RamDisk \<Rightarrow> string list" where
  "listBlobs disk = map fst disk"

section \<open>Loaders\<close>

text \<open>
  Modelled from the spec: the module \<open>./loaders\<close> is missing. The spec says that a
  description is loaded from storage by key and that a missing blob makes the load fail.
  \<open>loadDescription\<close> is what the three loaders share: it reads the blob and takes the
  description out of it; a blob that holds no description fails to load as well.
\<close>

definition loadDescription :: "string \<Rightarrow> RamDisk \<Rightarrow> error + Description" where
  "loadDescription key disk =
     (case readBlob key disk of
        Inl e \<Rightarrow> Inl e
      | Inr (Yaml d) \<Rightarrow> Inr d
      | Inr (Text t) \<Rightarrow> Inl (NotADescription key))"

text \<open>Modelled from the spec: \<open>loadSuite\<close> of \<open>./loaders\<close> is missing; it loads by key.\<close>

definition loadSuite :: "string \<Rightarrow> RamDisk \<Rightarrow> error + Description" where
  "loadSuite suiteId disk = loadDescription suiteId disk"

text \<open>Modelled from the spec: \<open>loadCandidate\<close> of \<open>./loaders\<close> is missing; it loads by key.\<close>

definition loadCandidate :: "string \<Rightarrow> RamDisk \<Rightarrow> error + Description" where
  "loadCandidate candidateId disk = loadDescription candidateId disk"

text \<open>
  Modelled from the spec: \<open>loadBenchmark\<close> of \<open>./loaders\<close> is missing; it loads by key.
  The Repository passes a third argument, to which the spec gives no meaning.
\<close>

definition loadBenchmark :: "string \<Rightarrow> RamDisk \<Rightarrow> bool \<Rightarrow> error + Description" where
  "loadBenchmark blob disk flag = loadDescription blob disk"

section \<open>Imported functions\<close>

text \<open>
  The modules \<open>../naming\<close> and \<open>../secrets\<close> are not among the sources. Their functions
  are parameters of the model, so every theorem holds for each naming scheme and each
  cipher. \<open>decryptSecrets\<close> changes the candidate in place or throws; here it returns the
  changed candidate or the error. \<open>createRunId()\<close> draws a fresh identifier: the value it
  returns is the argument \<open>runId\<close> of \<open>run\<close>.
\<close>

record Imports =
  encodeBenchmark :: "string \<Rightarrow> string"
  encodeCandidate :: "string \<Rightarrow> string"
  encodeSuite :: "string \<Rightarrow> string"
  encodeLog :: "string \<Rightarrow> string"
  getCollection :: "string \<Rightarrow> string"
  decryptSecrets :: "Description \<Rightarrow> string \<Rightarrow> error + Description"

section \<open>The world of the Laboratory\<close>

record Volume =
  mount :: string
  storage :: RamDisk

text \<open>\<open>new BlobLogger(cloudStorage, host, blob)\<close>: a logger of a host into a blob of cloud storage.\<close>

record BlobLogger =
  logHost :: string
  logBlob :: string

text \<open>
  One call \<open>orchestrator.createWorker(hostname, tag, cloudStorage, volumes, environment,
  logger)\<close>. The storage argument is the shared cloud storage in every call and is left out.
\<close>

record WorkerRequest =
  hostname :: string
  tag :: string
  volumes :: "Volume list"
  environment :: "(string \<times> string) list"
  workerLogger :: BlobLogger

datatype LoadCall = LoadSuite string | LoadCandidate string

text \<open>
  The state the Laboratory acts on: cloud storage, the calls the orchestrator has
  received, the lines of \<open>world.logger\<close>, and the loader calls made so far (a trace the
  model keeps, so that theorems can speak of what was attempted).
\<close>

record World =
  cloudStorage :: RamDisk
  orchestrator :: "WorkerRequest list"
  logger :: "string list"
  loadCalls :: "LoadCall list"

definition log :: "string \<Rightarrow> World \<Rightarrow> World" where
  "log message w = w\<lparr>logger := logger w @ [message]\<rparr>"

text \<open>\<open>createWorker\<close> is not awaited: the call is issued and \<open>run\<close> goes on.\<close>

definition createWorker :: "WorkerRequest \<Rightarrow> World \<Rightarrow> World" where
  "createWorker request w = w\<lparr>orchestrator := orchestrator w @ [request]\<rparr>"

definition called :: "LoadCall \<Rightarrow> World \<Rightarrow> World" where
  "called c w = w\<lparr>loadCalls := loadCalls w @ [c]\<rparr>"

section \<open>Laboratory\<close>

definition createBenchmark :: "Imports \<Rightarrow> Description \<Rightarrow> World \<Rightarrow> (error + string) \<times> World" where
  "createBenchmark im d w =
     (let encoded = encodeBenchmark im (image_tag d);
          buffer = safeDump d
      in case writeBlob encoded buffer False (cloudStorage w) of
           Inl e \<Rightarrow> (Inl e, w)
         | Inr disk \<Rightarrow>
             (Inr encoded,
              log (''Uploaded benchmark schema to '' @ encoded) (w\<lparr>cloudStorage := disk\<rparr>)))"

definition createCandidate :: "Imports \<Rightarrow> Description \<Rightarrow> World \<Rightarrow> (error + string) \<times> World" where
  "createCandidate im d w =
     (let encoded = encodeCandidate im (image_tag d);
          buffer = safeDump d
      in case writeBlob encoded buffer False (cloudStorage w) of
           Inl e \<Rightarrow> (Inl e, w)
         | Inr disk \<Rightarrow>
             (Inr encoded,
              log (''Uploaded candidate schema to '' @ encoded) (w\<lparr>cloudStorage := disk\<rparr>)))"

definition createSuite :: "Imports \<Rightarrow> Description \<Rightarrow> World \<Rightarrow> (error + string) \<times> World" where
  "createSuite im d w =
     (let encoded = encodeSuite im (name d);
          buffer = safeDump d
      in case writeBlob encoded buffer False (cloudStorage w) of
           Inl e \<Rightarrow> (Inl e, w)
         | Inr disk \<Rightarrow>
             (Inr encoded,
              log (''Uploaded suite schema to '' @ encoded) (w\<lparr>cloudStorage := disk\<rparr>)))"

definition unsupportedKind :: "string \<Rightarrow> string" where
  "unsupportedKind k =
     ''Laboratory.create(): unsupported kind==='' @ [CHR 0x22] @ k @ [CHR 0x22]"

definition create :: "Imports \<Rightarrow> Description \<Rightarrow> World \<Rightarrow> (error + string) \<times> World" where
  "create im d w =
     (case kind d of
        BENCHMARK \<Rightarrow> createBenchmark im d w
      | CANDIDATE \<Rightarrow> createCandidate im d w
      | SUITE \<Rightarrow> createSuite im d w
      | OTHER k \<Rightarrow>
          (let message = unsupportedKind k
           in (Inl (TypeError message), log message w)))"

definition benchmarkMismatch :: string where
  "benchmarkMismatch = ''Suite and Candidate benchmarks don'' @ [CHR 0x27] @ ''t match.''"

definition candidateRequest :: "Imports \<Rightarrow> string \<Rightarrow> string \<Rightarrow> RamDisk \<Rightarrow> WorkerRequest" where
  "candidateRequest im candidateId runId secrets =
     (let volume = \<lparr>mount = ''/secrets'', storage = secrets\<rparr>;
          candidateHost = ''c'' @ runId
      in \<lparr>hostname = candidateHost,
          tag = candidateId,
          volumes = [volume],
          environment = [],
          workerLogger = \<lparr>logHost = candidateHost, logBlob = encodeLog im candidateHost\<rparr>\<rparr>)"

definition benchmarkRequest ::
  "Imports \<Rightarrow> string \<Rightarrow> string \<Rightarrow> string \<Rightarrow> string \<Rightarrow> WorkerRequest" where
  "benchmarkRequest im candidateId suiteId benchmark runId =
     (let candidateHost = ''c'' @ runId;
          benchmarkHost = ''b'' @ runId
      in \<lparr>hostname = benchmarkHost,
          tag = benchmark,
          volumes = [],
          environment =
            [(''candidate'', candidateId),
             (''host'', candidateHost),
             (''run'', ''r'' @ runId),
             (''suite'', suiteId)],
          workerLogger = \<lparr>logHost = benchmarkHost, logBlob = encodeLog im benchmarkHost\<rparr>\<rparr>)"

text \<open>
  The tail of \<open>run\<close>, from the decrypted candidate on: the manifest goes into a new
  \<open>RamDisk\<close>, then the two workers are requested.
\<close>

definition startWorkers ::
  "Imports \<Rightarrow> string \<Rightarrow> string \<Rightarrow> string \<Rightarrow> string \<Rightarrow> Description \<Rightarrow> World
     \<Rightarrow> (error + unit) \<times> World" where
  "startWorkers im candidateId suiteId benchmark runId decrypted w =
     (case writeBlob ''spec.yaml'' (safeDump decrypted) True [] of
        Inl e \<Rightarrow> (Inl e, w)
      | Inr secrets \<Rightarrow>
          (let candidateHost = ''c'' @ runId;
               w1 = log (''Starting candidate '' @ candidateId @ '' on '' @ candidateHost) w;
               w2 = createWorker (candidateRequest im candidateId runId secrets) w1;
               benchmarkHost = ''b'' @ runId;
               w3 = log (''Starting benchmark '' @ benchmark @ '' on '' @ benchmarkHost) w2;
               w4 = createWorker (benchmarkRequest im candidateId suiteId benchmark runId) w3
           in (Inr (), w4)))"

definition run ::
  "Imports \<Rightarrow> KeyPair \<Rightarrow> string \<Rightarrow> string \<Rightarrow> string \<Rightarrow> World \<Rightarrow> (error + unit) \<times> World" where
  "run im keys candidateId suiteId runId w =
     (let w1 = log (''run('' @ candidateId @ '', '' @ suiteId @ '')'') w;
          w2 = called (LoadSuite suiteId) w1
      in case loadSuite suiteId (cloudStorage w2) of
           Inl e \<Rightarrow> (Inl (TypeError (''Cannot find suite '' @ suiteId)), w2)
         | Inr suiteData \<Rightarrow>
             (let w3 = called (LoadCandidate candidateId) w2
              in case loadCandidate candidateId (cloudStorage w3) of
                   Inl e \<Rightarrow> (Inl (TypeError (''Cannot find candidate '' @ candidateId)), w3)
                 | Inr candidateData \<Rightarrow>
                     if benchmarkId suiteData \<noteq> benchmarkId candidateData
                     then (Inl (TypeError benchmarkMismatch), log benchmarkMismatch w3)
                     else
                       (case decryptSecrets im candidateData (privateKey keys) of
                          Inl e \<Rightarrow> (Inl e, w3)
                        | Inr decrypted \<Rightarrow>
                            startWorkers im candidateId suiteId (benchmarkId suiteData)
                              runId decrypted w3)))"

section \<open>Local database\<close>

text \<open>
  The class \<open>LocalDatabase\<close> of \<open>../cloud\<close> is not among the sources. A database is an
  association list from table names to tables; a table is its columns and its rows.
\<close>

datatype Column = Column string string

type_synonym Table = "Column list \<times> string list list"

type_synonym LocalDatabase = "(string \<times> Table) list"

text \<open>
  Modelled from the spec: \<open>LocalDatabase.ensureTable\<close> is missing. The spec gives
  \<open>ensureTable(name, columnSpecs)\<close>, idempotent: a table that exists is left as it is.
\<close>

definition ensureTable :: "string \<Rightarrow> Column list \<Rightarrow> LocalDatabase \<Rightarrow> LocalDatabase" where
  "ensureTable table cols db =
     (case map_of db table of
        Some t \<Rightarrow> db
      | None \<Rightarrow> db @ [(table, (cols, []))])"

text \<open>
  Modelled from the spec: \<open>LocalDatabase.insert\<close> is missing. The spec gives
  \<open>insert(name, values)\<close> and says that nothing prevents a second row with the same
  values: the row is added.
\<close>

definition insert_db :: "string \<Rightarrow> string list \<Rightarrow> LocalDatabase \<Rightarrow> error + LocalDatabase" where
  "insert_db table row db =
     (case map_of db table of
        None \<Rightarrow> Inl (NoSuchTable table)
      | Some (cols, rs) \<Rightarrow> Inr (AList.update table (cols, rs @ [row]) db))"

text \<open>
  Modelled from the spec: \<open>LocalDatabase.select\<close> is missing. The spec gives \<open>select(name)\<close>,
  the rows; a query on a table that does not exist fails.
\<close>

definition select_db :: "string \<Rightarrow> LocalDatabase \<Rightarrow> error + string list list" where
  "select_db table db =
     (case map_of db table of
        None \<Rightarrow> Inl (NoSuchTable table)
      | Some (cols, rs) \<Rightarrow> Inr rs)"

text \<open>
  Modelled from the spec: \<open>LocalDatabase.getColumns\<close> is missing. The spec gives
  \<open>getColumns(name)\<close>, the column specifications.
\<close>

definition getColumns :: "string \<Rightarrow> LocalDatabase \<Rightarrow> error + Column list" where
  "getColumns table db =
     (case map_of db table of
        None \<Rightarrow> Inl (NoSuchTable table)
      | Some (cols, rs) \<Rightarrow> Inr cols)"

section \<open>Repository\<close>

record SelectResults =
  columns :: "Column list"
  rows :: "string list list"

text \<open>
  The state of a Repository: its database, its cache of benchmarks and the lines it has
  written to the console. Cloud storage belongs to the world; the Repository only reads
  it, so it is an argument \<open>disk\<close> of every operation.
\<close>

record Repository =
  database :: LocalDatabase
  benchmarkCache :: "string \<rightharpoonup> Description"
  console :: "string list"

definition consoleLog :: "string \<Rightarrow> Repository \<Rightarrow> Repository" where
  "consoleLog message r = r\<lparr>console := console r @ [message]\<rparr>"

definition select :: "string \<Rightarrow> Repository \<Rightarrow> error + SelectResults" where
  "select table r =
     (case getColumns table (database r) of
        Inl e \<Rightarrow> Inl e
      | Inr cols \<Rightarrow>
          (case select_db table (database r) of
             Inl e \<Rightarrow> Inl e
           | Inr rs \<Rightarrow> Inr \<lparr>columns = cols, rows = rs\<rparr>))"

definition benchmarkTableName :: string where
  "benchmarkTableName = ''benchmarks''"

definition getBenchmark :: "RamDisk \<Rightarrow> string \<Rightarrow> Repository \<Rightarrow> (error + Description) \<times> Repository" where
  "getBenchmark disk blob r =
     (case benchmarkCache r blob of
        Some benchmark \<Rightarrow> (Inr benchmark, r)
      | None \<Rightarrow>
          (case loadBenchmark blob disk False of
             Inl e \<Rightarrow> (Inl e, r)
           | Inr benchmark \<Rightarrow>
               (Inr benchmark, r\<lparr>benchmarkCache := (benchmarkCache r)(blob \<mapsto> benchmark)\<rparr>)))"

definition processBenchmark :: "RamDisk \<Rightarrow> string \<Rightarrow> Repository \<Rightarrow> (error + unit) \<times> Repository" where
  "processBenchmark disk blob r =
     (case getBenchmark disk blob (consoleLog (''repository: processBenchmark '' @ blob) r) of
        (Inl e, r1) \<Rightarrow> (Inl e, r1)
      | (Inr benchmark, r1) \<Rightarrow>
          (let db1 = ensureTable benchmarkTableName
                       [Column ''image'' ''string'',
                        Column ''name'' ''string'',
                        Column ''owner'' ''string'',
                        Column ''created'' ''string'']
                       (database r1)
           in case insert_db benchmarkTableName
                     [image_tag benchmark, name benchmark, owner benchmark, created benchmark]
                     db1 of
                Inl e \<Rightarrow> (Inl e, r1\<lparr>database := db1\<rparr>)
              | Inr db2 \<Rightarrow> (Inr (), r1\<lparr>database := db2\<rparr>)))"

text \<open>The three other handlers have an empty body.\<close>

definition processRun :: "string \<Rightarrow> Repository \<Rightarrow> (error + unit) \<times> Repository" where
  "processRun blobName r = (Inr (), r)"

definition processSuite :: "string \<Rightarrow> Repository \<Rightarrow> (error + unit) \<times> Repository" where
  "processSuite blobName r = (Inr (), r)"

definition processCandidate :: "string \<Rightarrow> Repository \<Rightarrow> (error + unit) \<times> Repository" where
  "processCandidate blobName r = (Inr (), r)"

definition processBlob ::
  "Imports \<Rightarrow> RamDisk \<Rightarrow> string \<Rightarrow> Repository \<Rightarrow> (error + unit) \<times> Repository" where
  "processBlob im disk blob r =
     (let collection = getCollection im blob
      in if collection = ''benchmarks'' then processBenchmark disk blob r
         else if collection = ''candidates'' then processCandidate blob r
         else if collection = ''suites'' then processSuite blob r
         else if collection = ''runs'' then processRun blob r
         else (Inr (), r))"

text \<open>The loop of \<open>crawlBlobs\<close>: an error thrown by a handler ends the crawl.\<close>

fun crawlLoop ::
  "Imports \<Rightarrow> RamDisk \<Rightarrow> string list \<Rightarrow> Repository \<Rightarrow> (error + unit) \<times> Repository" where
  "crawlLoop im disk [] r = (Inr (), r)"
| "crawlLoop im disk (blob # blobs) r =
     (case processBlob im disk blob r of
        (Inl e, r1) \<Rightarrow> (Inl e, r1)
      | (Inr u, r1) \<Rightarrow> crawlLoop im disk blobs r1)"

definition crawlBlobs :: "Imports \<Rightarrow> RamDisk \<Rightarrow> Repository \<Rightarrow> (error + unit) \<times> Repository" where
  "crawlBlobs im disk r =
     crawlLoop im disk (listBlobs disk) (consoleLog ''repository: beginning crawl'' r)"

text \<open>
  \<open>initialize\<close> calls \<open>crawlBlobs\<close> and does not await it. An async function runs up to
  its first \<open>await\<close>: \<open>crawlBlobs\<close> writes its console line and calls \<open>listBlobs\<close>, and
  there it is suspended; \<open>initialize\<close> returns. \<open>initialize_return\<close> is the outcome and the
  state of the Repository at that return. No call of the database comes before the
  \<open>await\<close>, and no error of the crawl reaches the caller.
\<close>

definition initialize_return :: "Repository \<Rightarrow> (error + unit) \<times> Repository" where
  "initialize_return r = (Inr (), consoleLog ''repository: beginning crawl'' r)"

text \<open>
  The state of the Repository once the crawl that \<open>initialize\<close> started has run to its
  end, which is later than the return of \<open>initialize\<close>.
\<close>

definition initialize :: "Imports \<Rightarrow> RamDisk \<Rightarrow> Repository \<Rightarrow> Repository" where
  "initialize im disk r = snd (crawlBlobs im disk r)"

section \<open>A sample deployment\<close>

text \<open>
  Concrete values on which the theorems below are exercised: a naming scheme that puts
  the collection before a slash, and a stand-in cipher in which the ciphertext of a text
  under a key is the key followed by the text.
\<close>

definition sampleDecrypt :: "Description \<Rightarrow> string \<Rightarrow> error + Description" where
  "sampleDecrypt c key =
     (if list_all (\<lambda>p. take (length key) (snd p) = key) (properties c)
      then Inr (c\<lparr>properties := map (\<lambda>p. (fst p, drop (length key) (snd p))) (properties c)\<rparr>)
      else Inl (DecryptionError ''not a ciphertext for this key''))"

definition sampleImports :: Imports where
  "sampleImports =
     \<lparr>encodeBenchmark = (\<lambda>n. ''benchmarks/'' @ n),
      encodeCandidate = (\<lambda>n. ''candidates/'' @ n),
      encodeSuite = (\<lambda>n. ''suites/'' @ n),
      encodeLog = (\<lambda>n. ''logs/'' @ n),
      getCollection = (\<lambda>b. takeWhile (\<lambda>c. c \<noteq> CHR ''/'') b),
      decryptSecrets = sampleDecrypt\<rparr>"

definition sampleKeys :: KeyPair where
  "sampleKeys = \<lparr>publicKey = ''pub'', privateKey = ''k1:''\<rparr>"

definition emptyWorld :: World where
  "emptyWorld = \<lparr>cloudStorage = [], orchestrator = [], logger = [], loadCalls = []\<rparr>"

definition benchmarkB1 :: Description where
  "benchmarkB1 =
     \<lparr>kind = BENCHMARK, name = ''True_Or_False'', description = ''a benchmark'',
      owner = ''Mike'', created = ''2019-01-01'', image_tag = ''img/true-false:1.0'',
      benchmarkId = [], properties = []\<rparr>"

definition suiteS1 :: Description where
  "suiteS1 =
     \<lparr>kind = SUITE, name = ''S1'', description = ''a suite'',
      owner = ''Mike'', created = ''2019-01-02'', image_tag = [],
      benchmarkId = ''benchmarks/img/true-false:1.0'', properties = []\<rparr>"

definition candidateC1 :: Description where
  "candidateC1 =
     \<lparr>kind = CANDIDATE, name = ''C1'', description = ''a candidate'',
      owner = ''Mike'', created = ''2019-01-03'', image_tag = ''img/cand:1.0'',
      benchmarkId = ''benchmarks/img/true-false:1.0'',
      properties = [(''password'', ''k1:hunter2'')]\<rparr>"

definition emptyRepository :: Repository where
  "emptyRepository = \<lparr>database = [], benchmarkCache = Map.empty, console = []\<rparr>"

text \<open>The key under which \<open>create\<close> stores a description of one of the three kinds.\<close>

definition storageKey :: "Imports \<Rightarrow> Description \<Rightarrow> string" where
  "storageKey im d =
     (case kind d of
        BENCHMARK \<Rightarrow> encodeBenchmark im (image_tag d)
      | CANDIDATE \<Rightarrow> encodeCandidate im (image_tag d)
      | SUITE \<Rightarrow> encodeSuite im (name d)
      | OTHER k \<Rightarrow> [])"

text \<open>The worlds after the benchmark, then the suite, then the candidate have been submitted.\<close>

definition worldB1 :: World where
  "worldB1 = snd (create sampleImports benchmarkB1 emptyWorld)"

definition worldS1 :: World where
  "worldS1 = snd (create sampleImports suiteS1 worldB1)"

definition submittedWorld :: World where
  "submittedWorld = snd (create sampleImports candidateC1 worldS1)"

text \<open>A second suite, for another benchmark, and the world in which it is stored too.\<close>

definition suiteS2 :: Description where
  "suiteS2 = suiteS1\<lparr>name := ''S2'', benchmarkId := ''benchmarks/img/other:1.0''\<rparr>"

definition mismatchWorld :: World where
  "mismatchWorld = snd (create sampleImports suiteS2 submittedWorld)"

definition runDescription :: Description where
  "runDescription = benchmarkB1\<lparr>kind := OTHER ''Run'', name := ''R1''\<rparr>"

definition otherKeys :: KeyPair where
  "otherKeys = \<lparr>publicKey = ''pub2'', privateKey = ''k2:''\<rparr>"

text \<open>A listing of cloud storage in which a run comes before its benchmark.\<close>

definition crawlDisk :: RamDisk where
  "crawlDisk =
     [(''runs/r42'', Text ''passed: 3, failed: 1''),
      (''benchmarks/img/true-false:1.0'', Yaml benchmarkB1),
      (''suites/S1'', Yaml suiteS1),
      (''candidates/img/cand:1.0'', Yaml candidateC1)]"

text \<open>The columns \<open>processBenchmark\<close> gives the benchmarks table.\<close>

definition benchmarkColumns :: "Column list" where
  "benchmarkColumns =
     [Column ''image'' ''string'', Column ''name'' ''string'',
      Column ''owner'' ''string'', Column ''created'' ''string'']"

section \<open>Facts about the collaborators\<close>

lemmas sample_defs =
  sampleImports_def sampleDecrypt_def sampleKeys_def emptyWorld_def benchmarkB1_def
  suiteS1_def candidateC1_def suiteS2_def runDescription_def otherKeys_def

lemmas create_defs =
  create_def createBenchmark_def createCandidate_def createSuite_def writeBlob_def
  safeDump_def log_def Let_def

lemmas repository_defs =
  initialize_def crawlBlobs_def processBlob_def processBenchmark_def processRun_def
  processSuite_def processCandidate_def getBenchmark_def loadBenchmark_def loadDescription_def
  readBlob_def listBlobs_def ensureTable_def insert_db_def select_db_def getColumns_def
  select_def consoleLog_def benchmarkTableName_def emptyRepository_def crawlDisk_def
  benchmarkColumns_def

lemma log_fields [simp]:
  "cloudStorage (log m w) = cloudStorage w"
  "orchestrator (log m w) = orchestrator w"
  "logger (log m w) = logger w @ [m]"
  "loadCalls (log m w) = loadCalls w"
  by (simp_all add: log_def)

lemma called_fields [simp]:
  "cloudStorage (called c w) = cloudStorage w"
  "orchestrator (called c w) = orchestrator w"
  "logger (called c w) = logger w"
  "loadCalls (called c w) = loadCalls w @ [c]"
  by (simp_all add: called_def)

lemma createWorker_fields [simp]:
  "cloudStorage (createWorker r w) = cloudStorage w"
  "orchestrator (createWorker r w) = orchestrator w @ [r]"
  "logger (createWorker r w) = logger w"
  "loadCalls (createWorker r w) = loadCalls w"
  by (simp_all add: createWorker_def)

lemma readBlob_absent:
  "key \<notin> set (listBlobs disk) \<Longrightarrow> readBlob key disk = Inl (BlobNotFound key)"
  by (simp add: readBlob_def listBlobs_def map_of_eq_None_iff [THEN iffD2])


lemma writeBlob_exists:
  "readBlob key disk = Inr old \<Longrightarrow> writeBlob key buffer False disk = Inl (BlobExists key)"
  by (auto simp add: readBlob_def writeBlob_def split: option.splits)

lemma loadDescription_stored:
  "readBlob key disk = Inr (Yaml d) \<Longrightarrow> loadDescription key disk = Inr d"
  by (simp add: loadDescription_def)

section \<open>Facts about the Laboratory\<close>

text \<open>A successful \<open>create\<close> returns the storage key, which was free, and stores the description there.\<close>

lemma create_stores:
  assumes "create im d w = (Inr key, w')"
  shows "key = storageKey im d
       \<and> readBlob key (cloudStorage w) = Inl (BlobNotFound key)
       \<and> cloudStorage w' = AList.update key (Yaml d) (cloudStorage w)
       \<and> orchestrator w' = orchestrator w"
  using assms
  by (cases "kind d")
     (auto simp add: create_def createBenchmark_def createCandidate_def createSuite_def
        storageKey_def writeBlob_def readBlob_def safeDump_def Let_def
        split: if_splits)

text \<open>The write into the new disk cannot fail, so the tail of \<open>run\<close> always requests both workers.\<close>

lemma startWorkers_result:
  "startWorkers im candidateId suiteId benchmark runId decrypted w =
     (Inr (),
      createWorker (benchmarkRequest im candidateId suiteId benchmark runId)
        (log (''Starting benchmark '' @ benchmark @ '' on '' @ ''b'' @ runId)
          (createWorker (candidateRequest im candidateId runId [(''spec.yaml'', safeDump decrypted)])
            (log (''Starting candidate '' @ candidateId @ '' on '' @ ''c'' @ runId) w))))"
  by (simp add: startWorkers_def writeBlob_def Let_def)

text \<open>No path of \<open>run\<close> writes to cloud storage.\<close>

lemma run_cloudStorage:
  "cloudStorage (snd (run im keys candidateId suiteId runId w)) = cloudStorage w"
  by (simp add: run_def startWorkers_result Let_def split: sum.splits)

text \<open>The whole effect of a run whose loads, check and decryption succeed.\<close>

lemma run_success:
  assumes "loadSuite suiteId (cloudStorage w) = Inr s"
    and "loadCandidate candidateId (cloudStorage w) = Inr c"
    and "benchmarkId s = benchmarkId c"
    and "decryptSecrets im c (privateKey keys) = Inr decrypted"
  shows "run im keys candidateId suiteId runId w =
     (Inr (),
      w\<lparr>orchestrator := orchestrator w @
           [candidateRequest im candidateId runId [(''spec.yaml'', safeDump decrypted)],
            benchmarkRequest im candidateId suiteId (benchmarkId s) runId],
        logger := logger w @
           [''run('' @ candidateId @ '', '' @ suiteId @ '')'',
            ''Starting candidate '' @ candidateId @ '' on '' @ ''c'' @ runId,
            ''Starting benchmark '' @ benchmarkId s @ '' on '' @ ''b'' @ runId],
        loadCalls := loadCalls w @ [LoadSuite suiteId, LoadCandidate candidateId]\<rparr>)"
  using assms
  by (simp add: run_def startWorkers_result log_def called_def createWorker_def)

text \<open>A run succeeds only along that path.\<close>

lemma run_success_inv:
  assumes "fst (run im keys candidateId suiteId runId w) = Inr ()"
  shows "\<exists>s c decrypted.
           loadSuite suiteId (cloudStorage w) = Inr s
         \<and> loadCandidate candidateId (cloudStorage w) = Inr c
         \<and> benchmarkId s = benchmarkId c
         \<and> decryptSecrets im c (privateKey keys) = Inr decrypted"
  using assms
  by (auto simp add: run_def Let_def split: sum.splits if_splits)

lemma create_returns_storageKey:
  "fst (create im d w) = Inr key \<Longrightarrow> key = storageKey im d"
  by (cases "kind d")
     (auto simp add: create_def createBenchmark_def createCandidate_def createSuite_def
        storageKey_def Let_def split: sum.splits)

section \<open>The sample deployment, evaluated\<close>

lemma worldB1_eq:
  "create sampleImports benchmarkB1 emptyWorld = (Inr ''benchmarks/img/true-false:1.0'', worldB1)"
  by (simp add: worldB1_def prod_eq_iff sample_defs create_defs)

lemma worldB1_storage:
  "cloudStorage worldB1 = [(''benchmarks/img/true-false:1.0'', Yaml benchmarkB1)]"
  by (simp add: worldB1_def sample_defs create_defs)

lemma worldS1_eq:
  "create sampleImports suiteS1 worldB1 = (Inr ''suites/S1'', worldS1)"
  by (simp add: worldS1_def prod_eq_iff create_defs worldB1_storage sample_defs)

lemma worldS1_storage:
  "cloudStorage worldS1 =
     [(''benchmarks/img/true-false:1.0'', Yaml benchmarkB1), (''suites/S1'', Yaml suiteS1)]"
  by (simp add: worldS1_def create_defs worldB1_storage sample_defs)

lemma submittedWorld_eq:
  "create sampleImports candidateC1 worldS1 = (Inr ''candidates/img/cand:1.0'', submittedWorld)"
  by (simp add: submittedWorld_def prod_eq_iff create_defs worldS1_storage sample_defs)

lemma submittedWorld_storage:
  "cloudStorage submittedWorld =
     [(''benchmarks/img/true-false:1.0'', Yaml benchmarkB1),
      (''suites/S1'', Yaml suiteS1),
      (''candidates/img/cand:1.0'', Yaml candidateC1)]"
  by (simp add: submittedWorld_def create_defs worldS1_storage sample_defs)

lemma submittedWorld_orchestrator:
  "orchestrator submittedWorld = []"
  using create_stores [OF worldB1_eq] create_stores [OF worldS1_eq]
    create_stores [OF submittedWorld_eq]
  by (simp add: emptyWorld_def)

lemma mismatchWorld_storage:
  "cloudStorage mismatchWorld =
     [(''benchmarks/img/true-false:1.0'', Yaml benchmarkB1),
      (''suites/S1'', Yaml suiteS1),
      (''candidates/img/cand:1.0'', Yaml candidateC1),
      (''suites/S2'', Yaml suiteS2)]"
  by (simp add: mismatchWorld_def create_defs submittedWorld_storage sample_defs)

lemma mismatchWorld_orchestrator:
  "orchestrator mismatchWorld = []"
  by (simp add: mismatchWorld_def create_defs submittedWorld_storage submittedWorld_orchestrator
        sample_defs)

section \<open>Running a suite\<close>




text \<open>
  Claim C2. When the suite stored under \<open>suiteId\<close> and the candidate stored under
  \<open>candidateId\<close> carry different benchmark ids, \<open>run\<close> fails with the benchmark-mismatch
  error, the message is the last line logged, and no \<open>createWorker\<close> call is issued.
\<close>

theorem run_benchmark_mismatch:
  assumes "readBlob suiteId (cloudStorage w) = Inr (Yaml s)"
    and "readBlob candidateId (cloudStorage w) = Inr (Yaml c)"
    and "benchmarkId s \<noteq> benchmarkId c"
  shows "fst (run im keys candidateId suiteId runId w) = Inl (TypeError benchmarkMismatch)
       \<and> logger (snd (run im keys candidateId suiteId runId w))
           = logger w @ [''run('' @ candidateId @ '', '' @ suiteId @ '')'', benchmarkMismatch]
       \<and> orchestrator (snd (run im keys candidateId suiteId runId w)) = orchestrator w"
  using assms
  by (simp add: run_def loadSuite_def loadCandidate_def loadDescription_stored)

theorem run_benchmark_mismatch_witness:
  "readBlob ''suites/S2'' (cloudStorage mismatchWorld) = Inr (Yaml suiteS2)
   \<and> readBlob ''candidates/img/cand:1.0'' (cloudStorage mismatchWorld) = Inr (Yaml candidateC1)
   \<and> benchmarkId suiteS2 \<noteq> benchmarkId candidateC1
   \<and> fst (run sampleImports sampleKeys ''candidates/img/cand:1.0'' ''suites/S2'' ''43''
          mismatchWorld) = Inl (TypeError benchmarkMismatch)
   \<and> orchestrator (snd (run sampleImports sampleKeys ''candidates/img/cand:1.0'' ''suites/S2''
          ''43'' mismatchWorld)) = []"
proof -
  have s: "readBlob ''suites/S2'' (cloudStorage mismatchWorld) = Inr (Yaml suiteS2)"
    by (simp add: mismatchWorld_storage readBlob_def)
  have c: "readBlob ''candidates/img/cand:1.0'' (cloudStorage mismatchWorld)
             = Inr (Yaml candidateC1)"
    by (simp add: mismatchWorld_storage readBlob_def)
  have n: "benchmarkId suiteS2 \<noteq> benchmarkId candidateC1"
    by (simp add: sample_defs)
  show ?thesis
    using s c n run_benchmark_mismatch [OF s c n, of sampleImports sampleKeys "''43''"]
    by (simp add: mismatchWorld_orchestrator)
qed

text \<open>
  Claim C6. When the suite and the candidate load, their benchmark ids agree and
  decrypting the secrets of the candidate with the private key of the service fails,
  \<open>run\<close> fails with the error of the decryption and no \<open>createWorker\<close> call is issued.
\<close>

theorem run_decryption_failure:
  assumes "readBlob suiteId (cloudStorage w) = Inr (Yaml s)"
    and "readBlob candidateId (cloudStorage w) = Inr (Yaml c)"
    and "benchmarkId s = benchmarkId c"
    and "decryptSecrets im c (privateKey keys) = Inl e"
  shows "fst (run im keys candidateId suiteId runId w) = Inl e
       \<and> orchestrator (snd (run im keys candidateId suiteId runId w)) = orchestrator w"
  using assms
  by (simp add: run_def loadSuite_def loadCandidate_def loadDescription_stored)

theorem run_decryption_failure_witness:
  "decryptSecrets sampleImports candidateC1 (privateKey otherKeys)
     = Inl (DecryptionError ''not a ciphertext for this key'')
   \<and> fst (run sampleImports otherKeys ''candidates/img/cand:1.0'' ''suites/S1'' ''45''
          submittedWorld) = Inl (DecryptionError ''not a ciphertext for this key'')
   \<and> orchestrator (snd (run sampleImports otherKeys ''candidates/img/cand:1.0'' ''suites/S1''
          ''45'' submittedWorld)) = []"
proof -
  have s: "readBlob ''suites/S1'' (cloudStorage submittedWorld) = Inr (Yaml suiteS1)"
    by (simp add: submittedWorld_storage readBlob_def)
  have c: "readBlob ''candidates/img/cand:1.0'' (cloudStorage submittedWorld)
             = Inr (Yaml candidateC1)"
    by (simp add: submittedWorld_storage readBlob_def)
  have b: "benchmarkId suiteS1 = benchmarkId candidateC1"
    by (simp add: sample_defs)
  have d: "decryptSecrets sampleImports candidateC1 (privateKey otherKeys)
             = Inl (DecryptionError ''not a ciphertext for this key'')"
    by (simp add: sample_defs)
  show ?thesis
    using d run_decryption_failure [OF s c b d, of "''45''"]
    by (simp add: submittedWorld_orchestrator)
qed

text \<open>
  Claim C7. When cloud storage holds no blob under \<open>suiteId\<close>, \<open>run\<close> fails with the
  error \<open>Cannot find suite\<close> followed by the id; the only loader call it has made is the
  one for the suite, so the candidate was not asked for; and no \<open>createWorker\<close> call is
  issued.
\<close>

theorem run_suite_not_found:
  assumes "suiteId \<notin> set (listBlobs (cloudStorage w))"
  shows "fst (run im keys candidateId suiteId runId w)
           = Inl (TypeError (''Cannot find suite '' @ suiteId))
       \<and> loadCalls (snd (run im keys candidateId suiteId runId w))
           = loadCalls w @ [LoadSuite suiteId]
       \<and> orchestrator (snd (run im keys candidateId suiteId runId w)) = orchestrator w"
  using readBlob_absent [OF assms]
  by (simp add: run_def loadSuite_def loadDescription_def)

theorem run_suite_not_found_witness:
  "''suites/S9'' \<notin> set (listBlobs (cloudStorage submittedWorld))
   \<and> fst (run sampleImports sampleKeys ''candidates/img/cand:1.0'' ''suites/S9'' ''44''
          submittedWorld) = Inl (TypeError ''Cannot find suite suites/S9'')
   \<and> loadCalls (snd (run sampleImports sampleKeys ''candidates/img/cand:1.0'' ''suites/S9''
          ''44'' submittedWorld)) = loadCalls submittedWorld @ [LoadSuite ''suites/S9'']
   \<and> orchestrator (snd (run sampleImports sampleKeys ''candidates/img/cand:1.0'' ''suites/S9''
          ''44'' submittedWorld)) = []"
proof -
  have a: "''suites/S9'' \<notin> set (listBlobs (cloudStorage submittedWorld))"
    by (simp add: submittedWorld_storage listBlobs_def)
  show ?thesis
    using a run_suite_not_found [OF a, of sampleImports sampleKeys
        "''candidates/img/cand:1.0''" "''44''"]
    by (simp add: submittedWorld_orchestrator)
qed

text \<open>
  Claim C10. After a successful \<open>run\<close> cloud storage is what it was before: every
  benchmark, candidate and suite blob is unchanged, the blob under the candidate id among
  them. The decrypted manifest is in one place only, the single volume handed to the
  workers, a new disk whose only blob is \<open>spec.yaml\<close>.
\<close>

theorem run_keeps_entity_blobs:
  assumes "fst (run im keys candidateId suiteId runId w) = Inr ()"
  shows "cloudStorage (snd (run im keys candidateId suiteId runId w)) = cloudStorage w
       \<and> (\<exists>c decrypted.
             loadCandidate candidateId (cloudStorage w) = Inr c
           \<and> decryptSecrets im c (privateKey keys) = Inr decrypted
           \<and> concat (map volumes (drop (length (orchestrator w))
                 (orchestrator (snd (run im keys candidateId suiteId runId w)))))
               = [\<lparr>mount = ''/secrets'', storage = [(''spec.yaml'', safeDump decrypted)]\<rparr>])"
proof -
  from run_success_inv [OF assms] obtain s c decrypted where
    h: "loadSuite suiteId (cloudStorage w) = Inr s"
       "loadCandidate candidateId (cloudStorage w) = Inr c"
       "benchmarkId s = benchmarkId c"
       "decryptSecrets im c (privateKey keys) = Inr decrypted"
    by blast
  have "concat (map volumes (drop (length (orchestrator w))
          (orchestrator (snd (run im keys candidateId suiteId runId w)))))
        = [\<lparr>mount = ''/secrets'', storage = [(''spec.yaml'', safeDump decrypted)]\<rparr>]"
    by (simp add: run_success [OF h] candidateRequest_def benchmarkRequest_def Let_def)
  with h show ?thesis by (simp add: run_cloudStorage)
qed

theorem run_keeps_entity_blobs_witness:
  "fst (run sampleImports sampleKeys ''candidates/img/cand:1.0'' ''suites/S1'' ''46''
          submittedWorld) = Inr ()
   \<and> cloudStorage (snd (run sampleImports sampleKeys ''candidates/img/cand:1.0'' ''suites/S1''
          ''46'' submittedWorld)) = cloudStorage submittedWorld"
proof -
  have s: "loadSuite ''suites/S1'' (cloudStorage submittedWorld) = Inr suiteS1"
    by (simp add: submittedWorld_storage loadSuite_def loadDescription_def readBlob_def)
  have c: "loadCandidate ''candidates/img/cand:1.0'' (cloudStorage submittedWorld)
             = Inr candidateC1"
    by (simp add: submittedWorld_storage loadCandidate_def loadDescription_def readBlob_def)
  have b: "benchmarkId suiteS1 = benchmarkId candidateC1"
    by (simp add: sample_defs)
  have d: "decryptSecrets sampleImports candidateC1 (privateKey sampleKeys)
             = Inr (candidateC1\<lparr>properties := [(''password'', ''hunter2'')]\<rparr>)"
    by (simp add: sample_defs)
  have ok: "fst (run sampleImports sampleKeys ''candidates/img/cand:1.0'' ''suites/S1'' ''46''
               submittedWorld) = Inr ()"
    by (simp add: run_success [OF s c b d])
  show ?thesis
    using ok run_keeps_entity_blobs [OF ok]
    by simp
qed

section \<open>Submitting a description\<close>

text \<open>
  Claim C3. For a description of kind benchmark, candidate or suite whose storage key
  already holds a blob, \<open>create\<close> fails, cloud storage is unchanged, and the blob under
  the key still has its old content. The handlers write with overwriting not allowed and
  make no check of their own; the refusal is that of the storage.
\<close>

theorem create_refuses_overwrite:
  assumes "kind d \<in> {BENCHMARK, CANDIDATE, SUITE}"
    and "readBlob (storageKey im d) (cloudStorage w) = Inr old"
  shows "fst (create im d w) = Inl (BlobExists (storageKey im d))
       \<and> cloudStorage (snd (create im d w)) = cloudStorage w
       \<and> readBlob (storageKey im d) (cloudStorage (snd (create im d w))) = Inr old"
  using assms
  by (cases "kind d")
     (simp_all add: create_def createBenchmark_def createCandidate_def createSuite_def
        storageKey_def writeBlob_exists)

theorem create_refuses_overwrite_witness:
  "kind candidateC1 \<in> {BENCHMARK, CANDIDATE, SUITE}
   \<and> readBlob (storageKey sampleImports candidateC1) (cloudStorage submittedWorld)
       = Inr (Yaml candidateC1)
   \<and> fst (create sampleImports (candidateC1\<lparr>owner := ''Eve''\<rparr>) submittedWorld)
       = Inl (BlobExists ''candidates/img/cand:1.0'')
   \<and> readBlob ''candidates/img/cand:1.0''
        (cloudStorage (snd (create sampleImports (candidateC1\<lparr>owner := ''Eve''\<rparr>)
           submittedWorld)))
       = Inr (Yaml candidateC1)"
proof -
  have k: "kind (candidateC1\<lparr>owner := ''Eve''\<rparr>) \<in> {BENCHMARK, CANDIDATE, SUITE}"
    by (simp add: sample_defs)
  have key: "storageKey sampleImports (candidateC1\<lparr>owner := ''Eve''\<rparr>)
               = ''candidates/img/cand:1.0''"
    "storageKey sampleImports candidateC1 = ''candidates/img/cand:1.0''"
    by (simp_all add: storageKey_def sample_defs)
  have r: "readBlob (storageKey sampleImports (candidateC1\<lparr>owner := ''Eve''\<rparr>))
             (cloudStorage submittedWorld) = Inr (Yaml candidateC1)"
    by (simp add: key submittedWorld_storage readBlob_def)
  show ?thesis
    using k r create_refuses_overwrite [OF k r]
    by (simp add: key)
qed

text \<open>
  Claim C8. For a description whose kind is none of benchmark, candidate and suite,
  \<open>create\<close> fails with the unsupported-kind error, which names the kind; the same
  message is logged; and cloud storage is unchanged.
\<close>

theorem create_unsupported_kind:
  assumes "kind d \<notin> {BENCHMARK, CANDIDATE, SUITE}"
  shows "\<exists>k. kind d = OTHER k
           \<and> fst (create im d w) = Inl (TypeError (unsupportedKind k))
           \<and> logger (snd (create im d w)) = logger w @ [unsupportedKind k]
           \<and> cloudStorage (snd (create im d w)) = cloudStorage w"
  using assms by (cases "kind d") (simp_all add: create_def Let_def)

theorem create_unsupported_kind_witness:
  "kind runDescription \<notin> {BENCHMARK, CANDIDATE, SUITE}
   \<and> fst (create sampleImports runDescription submittedWorld)
       = Inl (TypeError (unsupportedKind ''Run''))
   \<and> logger (snd (create sampleImports runDescription submittedWorld))
       = logger submittedWorld @ [unsupportedKind ''Run'']
   \<and> cloudStorage (snd (create sampleImports runDescription submittedWorld))
       = cloudStorage submittedWorld"
proof -
  have k: "kind runDescription \<notin> {BENCHMARK, CANDIDATE, SUITE}"
    by (simp add: sample_defs)
  have "kind runDescription = OTHER ''Run''"
    by (simp add: sample_defs)
  then show ?thesis
    using k create_unsupported_kind [OF k, of sampleImports submittedWorld]
    by auto
qed

section \<open>The crawl of the Repository\<close>

text \<open>A blob of the candidates, suites or runs collection leaves the Repository as it was.\<close>

lemma processBlob_stub:
  assumes "getCollection im blob = ''candidates'' \<or> getCollection im blob = ''suites''
         \<or> getCollection im blob = ''runs''"
  shows "processBlob im disk blob r = (Inr (), r)"
  using assms
  by (auto simp add: processBlob_def processCandidate_def processSuite_def processRun_def)

text \<open>A benchmark that is in the cache, seen again, gets one more row.\<close>

lemma processBenchmark_cached:
  assumes "benchmarkCache r blob = Some b"
    and "select_db benchmarkTableName (database r) = Inr rs"
  shows "select_db benchmarkTableName (database (snd (processBenchmark disk blob r)))
           = Inr (rs @ [[image_tag b, name b, owner b, created b]])"
  using assms
  by (auto simp add: processBenchmark_def getBenchmark_def consoleLog_def ensureTable_def
        insert_db_def select_db_def update_conv' Let_def split: option.splits)

text \<open>
  Claim C9. \<open>initialize\<close> returns, without an error, before the crawl it started has
  touched the database: at its return the database is what it was, so every \<open>select\<close>
  answers as it did before the call, and the whole loop of the crawl is still to run.
  Hence the return of \<open>initialize\<close> does not make any row of the crawl visible: on the
  sample listing a \<open>select\<close> of the benchmarks table at that moment fails, the table not
  being there, while the same \<open>select\<close> once the crawl has ended gives the row of the
  benchmark.
\<close>

theorem initialize_returns_before_crawl:
  "fst (initialize_return r) = Inr ()
   \<and> database (snd (initialize_return r)) = database r
   \<and> select table (snd (initialize_return r)) = select table r
   \<and> crawlBlobs im disk r = crawlLoop im disk (listBlobs disk) (snd (initialize_return r))
   \<and> select ''benchmarks'' (snd (initialize_return emptyRepository))
       = Inl (NoSuchTable ''benchmarks'')
   \<and> select ''benchmarks'' (initialize sampleImports crawlDisk emptyRepository)
       = Inr \<lparr>columns = benchmarkColumns,
              rows = [[''img/true-false:1.0'', ''True_Or_False'', ''Mike'', ''2019-01-01'']]\<rparr>"
proof -
  have db: "database (snd (initialize_return r)) = database r"
    by (simp add: initialize_return_def consoleLog_def)
  have general:
    "fst (initialize_return r) = Inr ()"
    "select table (snd (initialize_return r)) = select table r"
    "crawlBlobs im disk r = crawlLoop im disk (listBlobs disk) (snd (initialize_return r))"
    unfolding select_def db
    by (simp_all add: initialize_return_def crawlBlobs_def)
  have at_return:
    "select ''benchmarks'' (snd (initialize_return emptyRepository))
       = Inl (NoSuchTable ''benchmarks'')"
    by (simp add: initialize_return_def consoleLog_def select_def getColumns_def
          emptyRepository_def)
  have at_end:
    "select ''benchmarks'' (initialize sampleImports crawlDisk emptyRepository)
       = Inr \<lparr>columns = benchmarkColumns,
              rows = [[''img/true-false:1.0'', ''True_Or_False'', ''Mike'', ''2019-01-01'']]\<rparr>"
    by (simp add: repository_defs sample_defs)
  from db general at_return at_end show ?thesis
    by simp
qed

text \<open>
  Claim C4, at a listing with a run, a benchmark, a suite and a candidate, the run first.
  The claim asks that each candidate, suite and run be recorded in the table of its
  collection. After the crawl the database holds the benchmarks table with its one row and
  nothing else: there is no table for runs, suites or candidates, and the run is lost.
\<close>

theorem crawl_records_benchmarks_only:
  "database (initialize sampleImports crawlDisk emptyRepository) =
     [(''benchmarks'',
       (benchmarkColumns, [[''img/true-false:1.0'', ''True_Or_False'', ''Mike'', ''2019-01-01'']]))]
   \<and> select ''runs'' (initialize sampleImports crawlDisk emptyRepository)
       = Inl (NoSuchTable ''runs'')
   \<and> select ''suites'' (initialize sampleImports crawlDisk emptyRepository)
       = Inl (NoSuchTable ''suites'')
   \<and> select ''candidates'' (initialize sampleImports crawlDisk emptyRepository)
       = Inl (NoSuchTable ''candidates'')"
  by (simp add: repository_defs sample_defs)

text \<open>
  Claim C5, at the same listing, crawled twice. The claim asks for one row for each
  benchmark blob. After the second crawl the benchmarks table holds the row of the one
  benchmark twice.
\<close>

theorem second_crawl_duplicates_row:
  "select ''benchmarks''
     (initialize sampleImports crawlDisk (initialize sampleImports crawlDisk emptyRepository)) =
     Inr \<lparr>columns = benchmarkColumns,
          rows = [[''img/true-false:1.0'', ''True_Or_False'', ''Mike'', ''2019-01-01''],
                  [''img/true-false:1.0'', ''True_Or_False'', ''Mike'', ''2019-01-01'']]\<rparr>"
  by (simp add: repository_defs sample_defs)

end
